theory Spec2Isabelle
  imports Complex_Main "HOL-Library.Sublist"
begin

section \<open>The worker and its bucket downloader\<close>

text \<open>
  A shallow embedding of \<^verbatim>\<open>model_downloader.py\<close> (class \<^verbatim>\<open>ModelDownloader\<close> and
  \<^verbatim>\<open>download_model_from_s3\<close>) and of \<^verbatim>\<open>main.py\<close> (\<^verbatim>\<open>CONFIG\<close>,
  \<^verbatim>\<open>initialize_worker\<close>, \<^verbatim>\<open>handler\<close>).

  Conventions of the model.
  \<^item> A Python exception is a value of \<open>exn\<close>; a call that may raise returns \<open>exn + 'a\<close>
    with \<open>Inl\<close> the exception. \<^verbatim>\<open>except ClientError\<close> matches the constructor
    \<open>ClientError\<close> only, \<^verbatim>\<open>except Exception\<close> matches every constructor.
  \<^item> The S3 client is a record of its three methods that the code calls; their behaviour is
    whatever the record holds. \<^verbatim>\<open>self.s3\<close> is \<open>None\<close> when \<^verbatim>\<open>_create_s3_client\<close>
    returned \<^verbatim>\<open>None\<close>, and a method call on it raises \<open>AttributeError\<close>.
  \<^item> The process environment is a map from variable names to values.
  \<^item> The local file system is a tree of directories and regular files: a map from
    locations (the names from the root down) to nodes. A path string is resolved name by
    name as the kernel does it: repeated separators are dropped, \<^verbatim>\<open>.\<close> stays,
    \<^verbatim>\<open>..\<close> goes up, every name that is passed through must be a directory, and a
    trailing separator asks for a directory. So \<^verbatim>\<open>a\<close>, \<^verbatim>\<open>./a\<close> and \<^verbatim>\<open>//a\<close> are one
    file, and \<^verbatim>\<open>os.makedirs\<close> and the opening of a file for writing raise where the
    tree does not allow them. Symbolic links, permissions and a full disk are not modelled.
  \<^item> \<^verbatim>\<open>print\<close> and the progress bar write to the terminal only and are left out.
  \<^item> The pagination loop of \<^verbatim>\<open>list_bucket_contents\<close> need not end; it is a
    \<^theory_text>\<open>partial_function\<close> in the option monad, \<open>None\<close> standing for a run that
    never returns.
  \<^item> Library code outside the repository is a parameter: \<open>boto3_client\<close> for
    \<^verbatim>\<open>boto3.client\<close>, \<open>json_dump\<close> for \<^verbatim>\<open>json.dump(_, f, indent=2)\<close>, and \<open>fmt\<close>
    for the formatting of a job input that is not a string.
\<close>

subsection \<open>Exceptions\<close>

datatype os_error = FileExists | FileNotFound | NotADirectory | IsADirectory

datatype exn =
    ClientError string
  | AttributeError string
  | KeyError string
  | OSError os_error
  | OtherException string

fun strerror :: "os_error \<Rightarrow> string" where
  "strerror FileExists = ''File exists''"
| "strerror FileNotFound = ''No such file or directory''"
| "strerror NotADirectory = ''Not a directory''"
| "strerror IsADirectory = ''Is a directory''"

text \<open>\<^verbatim>\<open>str(e)\<close>. For a \<open>KeyError\<close> it is the \<^verbatim>\<open>repr\<close> of the missing key, which for a
  key of plain letters is the key between single quotes.\<close>

fun str_exn :: "exn \<Rightarrow> string" where
  "str_exn (ClientError m) = m"
| "str_exn (AttributeError m) = m"
| "str_exn (KeyError k) = CHR 0x27 # k @ [CHR 0x27]"
| "str_exn (OSError k) = strerror k"
| "str_exn (OtherException m) = m"

text \<open>The exception of an attribute access on \<^verbatim>\<open>None\<close>.\<close>

definition no_attribute :: "string \<Rightarrow> exn" where
  "no_attribute name =
     AttributeError (CHR 0x27 # ''NoneType'' @ CHR 0x27 # '' object has no attribute ''
                       @ CHR 0x27 # name @ [CHR 0x27])"

subsection \<open>Environment and path strings\<close>

type_synonym environ = "string \<rightharpoonup> string"

definition os_getenv :: "environ \<Rightarrow> string \<Rightarrow> string option" where
  "os_getenv env name = env name"

definition os_getenv_default :: "environ \<Rightarrow> string \<Rightarrow> string \<Rightarrow> string" where
  "os_getenv_default env name dflt = (case env name of None \<Rightarrow> dflt | Some v \<Rightarrow> v)"

text \<open>Python's truth value of an optional string: \<^verbatim>\<open>None\<close> and \<^verbatim>\<open>""\<close> are false.\<close>

definition truthy :: "string option \<Rightarrow> bool" where
  "truthy v = (case v of None \<Rightarrow> False | Some s \<Rightarrow> s \<noteq> [])"

definition startswith :: "string \<Rightarrow> string \<Rightarrow> bool" where
  "startswith s p = (take (length p) s = p)"

definition endswith :: "string \<Rightarrow> string \<Rightarrow> bool" where
  "endswith s p = (length p \<le> length s \<and> drop (length s - length p) s = p)"

text \<open>\<^verbatim>\<open>posixpath.join(a, b)\<close>: a second component that starts with the separator
  replaces the path built so far.\<close>

definition os_path_join :: "string \<Rightarrow> string \<Rightarrow> string" where
  "os_path_join a b =
     (if startswith b ''/'' then b
      else if a = [] \<or> endswith a ''/'' then a @ b
      else a @ ''/'' @ b)"

text \<open>\<^verbatim>\<open>posixpath.split(p)\<close>: the head is everything up to the last separator, with
  trailing separators removed unless nothing else is left; the tail is what follows the
  last separator. \<^verbatim>\<open>posixpath.dirname(p)\<close> is the head.\<close>

definition os_path_split :: "string \<Rightarrow> string \<times> string" where
  "os_path_split p =
     (let head = rev (dropWhile (\<lambda>c. c \<noteq> CHR ''/'') (rev p));
          tail = rev (takeWhile (\<lambda>c. c \<noteq> CHR ''/'') (rev p))
      in (if head \<noteq> [] \<and> head \<noteq> replicate (length head) (CHR ''/'')
          then rev (dropWhile (\<lambda>c. c = CHR ''/'') (rev head))
          else head, tail))"

definition os_path_dirname :: "string \<Rightarrow> string" where
  "os_path_dirname p = fst (os_path_split p)"

subsection \<open>The file system\<close>

datatype node = File string | Dir

text \<open>The world outside the program: the nodes of the file system by location, the
  working directory, the size that \<^verbatim>\<open>stat\<close> reports for a directory (it depends on
  the file system; here on the directory and on the names it holds), and the clock.\<close>

record world =
  nodes :: "string list \<rightharpoonup> node"
  cwd :: "string list"
  dir_size :: "string list \<Rightarrow> string set \<Rightarrow> nat"
  clock :: real

text \<open>The root is a directory in every world.\<close>

definition lookup :: "world \<Rightarrow> string list \<Rightarrow> node option" where
  "lookup w loc = (if loc = [] then Some Dir else nodes w loc)"

definition entries :: "world \<Rightarrow> string list \<Rightarrow> string set" where
  "entries w loc = {n. nodes w (loc @ [n]) \<noteq> None}"

fun split_slash :: "string \<Rightarrow> string list" where
  "split_slash [] = [[]]"
| "split_slash (c # cs) =
     (if c = CHR ''/'' then [] # split_slash cs
      else (case split_slash cs of
              [] \<Rightarrow> [[c]]
            | x # xs \<Rightarrow> (c # x) # xs))"

definition names_of :: "string \<Rightarrow> string list" where
  "names_of p = filter (\<lambda>c. c \<noteq> []) (split_slash p)"

definition trailing_slash :: "string \<Rightarrow> bool" where
  "trailing_slash p = (p \<noteq> [] \<and> last p = CHR ''/'')"

text \<open>The names that the resolution of a path walks through: a trailing separator
  counts as a final \<^verbatim>\<open>.\<close>.\<close>

definition path_components :: "string \<Rightarrow> string list" where
  "path_components p =
     (if trailing_slash p \<and> names_of p \<noteq> [] then names_of p @ [''.''] else names_of p)"

definition walk_step :: "string list \<Rightarrow> string \<Rightarrow> string list" where
  "walk_step cur c =
     (if c = ''.'' then cur else if c = ''..'' then butlast cur else cur @ [c])"

text \<open>One name at a time: the location walked from must be a directory. The location
  reached by the last name may be anything, also absent.\<close>

fun walk :: "world \<Rightarrow> string list \<Rightarrow> string list \<Rightarrow> exn + string list" where
  "walk w cur [] = Inr cur"
| "walk w cur (c # cs) =
     (case lookup w cur of
        None \<Rightarrow> Inl (OSError FileNotFound)
      | Some (File body) \<Rightarrow> Inl (OSError NotADirectory)
      | Some Dir \<Rightarrow> walk w (walk_step cur c) cs)"

definition start_of :: "world \<Rightarrow> string \<Rightarrow> string list" where
  "start_of w p = (if startswith p ''/'' then [] else cwd w)"

definition resolve :: "world \<Rightarrow> string \<Rightarrow> exn + string list" where
  "resolve w p =
     (if p = [] then Inl (OSError FileNotFound)
      else walk w (start_of w p) (path_components p))"

text \<open>\<^verbatim>\<open>os.path.exists\<close> and \<^verbatim>\<open>os.path.isdir\<close> answer \<^verbatim>\<open>False\<close> when \<^verbatim>\<open>stat\<close>
  raises; \<^verbatim>\<open>os.path.getsize\<close> raises then.\<close>

definition os_path_exists :: "world \<Rightarrow> string \<Rightarrow> bool" where
  "os_path_exists w p =
     (case resolve w p of Inl e \<Rightarrow> False | Inr loc \<Rightarrow> lookup w loc \<noteq> None)"

definition os_path_isdir :: "world \<Rightarrow> string \<Rightarrow> bool" where
  "os_path_isdir w p =
     (case resolve w p of Inl e \<Rightarrow> False | Inr loc \<Rightarrow> lookup w loc = Some Dir)"

definition os_path_getsize :: "world \<Rightarrow> string \<Rightarrow> exn + nat" where
  "os_path_getsize w p =
     (case resolve w p of
        Inl e \<Rightarrow> Inl e
      | Inr loc \<Rightarrow>
          (case lookup w loc of
             None \<Rightarrow> Inl (OSError FileNotFound)
           | Some (File body) \<Rightarrow> Inr (length body)
           | Some Dir \<Rightarrow> Inr (dir_size w loc (entries w loc))))"

text \<open>For a call that creates an entry: the directory that is to hold it and its name.
  There is no name when the path is the root or ends in \<^verbatim>\<open>.\<close> or \<^verbatim>\<open>..\<close>.\<close>

definition resolve_parent :: "world \<Rightarrow> string \<Rightarrow> exn + string list \<times> string option" where
  "resolve_parent w p =
     (if p = [] then Inl (OSError FileNotFound)
      else if names_of p = [] then Inr ([], None)
      else (case walk w (start_of w p) (butlast (names_of p)) of
              Inl e \<Rightarrow> Inl e
            | Inr parent \<Rightarrow>
                (case lookup w parent of
                   None \<Rightarrow> Inl (OSError FileNotFound)
                 | Some (File body) \<Rightarrow> Inl (OSError NotADirectory)
                 | Some Dir \<Rightarrow>
                     if last (names_of p) = ''.'' \<or> last (names_of p) = ''..''
                     then Inr (parent, None)
                     else Inr (parent, Some (last (names_of p))))))"

text \<open>\<^verbatim>\<open>os.mkdir(p)\<close>.\<close>

definition os_mkdir :: "string \<Rightarrow> world \<Rightarrow> exn + world" where
  "os_mkdir p w =
     (case resolve_parent w p of
        Inl e \<Rightarrow> Inl e
      | Inr (parent, None) \<Rightarrow> Inl (OSError FileExists)
      | Inr (parent, Some n) \<Rightarrow>
          if lookup w (parent @ [n]) \<noteq> None then Inl (OSError FileExists)
          else Inr (w\<lparr>nodes := (nodes w)(parent @ [n] \<mapsto> Dir)\<rparr>))"

text \<open>\<^verbatim>\<open>with open(p, 'w') as f\<close> and the writing of \<open>text\<close>: the file is created or
  replaced; a directory cannot be opened for writing.\<close>

definition write_file :: "string \<Rightarrow> string \<Rightarrow> world \<Rightarrow> exn + world" where
  "write_file p text w =
     (case resolve_parent w p of
        Inl e \<Rightarrow> Inl e
      | Inr (parent, None) \<Rightarrow> Inl (OSError IsADirectory)
      | Inr (parent, Some n) \<Rightarrow>
          (case lookup w (parent @ [n]) of
             Some Dir \<Rightarrow> Inl (OSError IsADirectory)
           | Some (File body) \<Rightarrow>
               if trailing_slash p then Inl (OSError NotADirectory)
               else Inr (w\<lparr>nodes := (nodes w)(parent @ [n] \<mapsto> File text)\<rparr>)
           | None \<Rightarrow>
               if trailing_slash p then Inl (OSError IsADirectory)
               else Inr (w\<lparr>nodes := (nodes w)(parent @ [n] \<mapsto> File text)\<rparr>)))"

text \<open>\<^verbatim>\<open>os.makedirs(name, exist_ok=True)\<close>, as the standard library has it: the head of
  the path is made first when it does not exist (a \<open>FileExistsError\<close> of that call is
  passed over), a path that ends in \<^verbatim>\<open>.\<close> is done then, and at last \<^verbatim>\<open>mkdir(name)\<close>
  is called, whose error is raised unless the path is a directory by now. The result holds
  the world also when an exception is raised, since directories may have been made.\<close>

definition mkdir_or_exists :: "string \<Rightarrow> world \<Rightarrow> exn option \<times> world" where
  "mkdir_or_exists name w =
     (case os_mkdir name w of
        Inr w' \<Rightarrow> (None, w')
      | Inl e \<Rightarrow> if os_path_isdir w name then (None, w) else (Some e, w))"

definition head_tail :: "string \<Rightarrow> string \<times> string" where
  "head_tail name =
     (case os_path_split name of
        (head, tail) \<Rightarrow> if tail = [] then os_path_split head else (head, tail))"

definition after_head :: "string \<Rightarrow> string \<Rightarrow> exn option \<times> world \<Rightarrow> exn option \<times> world" where
  "after_head tail name r =
     (case r of
        (Some e, w') \<Rightarrow>
          if e = OSError FileExists
          then (if tail = ''.'' then (None, w') else mkdir_or_exists name w')
          else (Some e, w')
      | (None, w') \<Rightarrow> if tail = ''.'' then (None, w') else mkdir_or_exists name w')"

function os_makedirs :: "string \<Rightarrow> world \<Rightarrow> exn option \<times> world" where
  "os_makedirs name w =
     (if fst (head_tail name) \<noteq> [] \<and> snd (head_tail name) \<noteq> []
         \<and> \<not> os_path_exists w (fst (head_tail name))
      then after_head (snd (head_tail name)) name (os_makedirs (fst (head_tail name)) w)
      else mkdir_or_exists name w)"
  by pat_completeness auto
termination
proof (relation "measure (\<lambda>(name, w). length name)")
  show "wf (measure (\<lambda>(name, w :: world). length name))" by simp
next
  fix name :: string and w :: world
  assume "fst (head_tail name) \<noteq> [] \<and> snd (head_tail name) \<noteq> []
            \<and> \<not> os_path_exists w (fst (head_tail name))"
  then have tail: "snd (head_tail name) \<noteq> []" by simp
  have split_le: "length (fst (os_path_split p)) + length (snd (os_path_split p)) \<le> length p"
    for p
  proof -
    have "length (dropWhile (\<lambda>c. c \<noteq> CHR ''/'') (rev p))
            + length (takeWhile (\<lambda>c. c \<noteq> CHR ''/'') (rev p)) = length p"
      by (metis add.commute length_append length_rev takeWhile_dropWhile_id)
    moreover have "length (dropWhile (\<lambda>c. c = CHR ''/'') (dropWhile (\<lambda>c. c \<noteq> CHR ''/'') (rev p)))
            \<le> length (dropWhile (\<lambda>c. c \<noteq> CHR ''/'') (rev p))"
      by (simp add: length_dropWhile_le)
    ultimately show ?thesis by (auto simp: os_path_split_def Let_def)
  qed
  obtain h t where ht: "os_path_split name = (h, t)" by (cases "os_path_split name")
  have l1: "length h + length t \<le> length name" using split_le [of name] ht by simp
  have "length (fst (head_tail name)) < length name"
  proof (cases "t = []")
    case True
    then have eq: "head_tail name = os_path_split h" by (simp add: head_tail_def ht)
    have "snd (os_path_split h) \<noteq> []" using tail eq by simp
    then have "length (fst (os_path_split h)) < length h"
      using split_le [of h] by (cases "snd (os_path_split h)") auto
    then show ?thesis using l1 eq by simp
  next
    case False
    then have eq: "head_tail name = (h, t)" by (simp add: head_tail_def ht)
    show ?thesis using l1 eq False by (cases t) auto
  qed
  then show "((fst (head_tail name), w), name, w) \<in> measure (\<lambda>(name, w). length name)"
    by simp
qed

declare os_makedirs.simps [simp del]

definition time_time :: "world \<Rightarrow> real" where
  "time_time w = clock w"

subsection \<open>The S3 client\<close>

record remote_object =
  Key :: string
  Size :: nat

record list_response =
  Contents :: "remote_object list option"
  IsTruncated :: "bool option"
  NextContinuationToken :: "string option"

text \<open>\<open>head_object Bucket Key\<close> gives the \<^verbatim>\<open>ContentLength\<close>; \<open>list_objects_v2 Bucket
  token\<close> is called with \<open>None\<close> when no \<^verbatim>\<open>ContinuationToken\<close> argument is passed;
  \<open>get_object Bucket Key\<close> is the body that a transfer delivers.\<close>

record s3_client =
  head_object :: "string \<Rightarrow> string \<Rightarrow> exn + nat"
  list_objects_v2 :: "string \<Rightarrow> string option \<Rightarrow> exn + list_response"
  get_object :: "string \<Rightarrow> string \<Rightarrow> exn + string"

text \<open>\<^verbatim>\<open>s3.download_file(Bucket, Key, Filename)\<close>: the client fetches the body into a
  temporary file beside \<open>Filename\<close> and renames it onto \<open>Filename\<close> when the transfer is
  complete, and removes it when anything fails. What stays is a file of the body at
  \<open>Filename\<close>, or nothing; the renaming fails where a file cannot be written.\<close>

definition s3_download_file :: "s3_client \<Rightarrow> string \<Rightarrow> string \<Rightarrow> string \<Rightarrow> world \<Rightarrow> exn + world" where
  "s3_download_file c bucket key filename w =
     (case get_object c bucket key of
        Inl e \<Rightarrow> Inl e
      | Inr body \<Rightarrow> write_file filename body w)"

subsection \<open>ModelDownloader\<close>

record model_downloader =
  bucket_name :: string
  endpoint_url :: string
  region :: string
  s3 :: "s3_client option"
  model_path :: string

text \<open>\<^verbatim>\<open>_create_s3_client\<close>: without both credentials the result is \<^verbatim>\<open>None\<close>; an
  exception of \<^verbatim>\<open>boto3.client\<close> is raised again.\<close>

definition create_s3_client ::
  "(string \<Rightarrow> string \<Rightarrow> string \<Rightarrow> string \<Rightarrow> exn + s3_client) \<Rightarrow> environ \<Rightarrow> string \<Rightarrow> string
     \<Rightarrow> exn + s3_client option" where
  "create_s3_client boto3_client env endpoint reg =
     (let access_key = os_getenv env ''AWS_ACCESS_KEY_ID'';
          secret_key = os_getenv env ''AWS_SECRET_ACCESS_KEY''
      in if \<not> truthy access_key \<or> \<not> truthy secret_key then Inr None
         else (case boto3_client endpoint reg (the access_key) (the secret_key) of
                 Inl e \<Rightarrow> Inl e
               | Inr c \<Rightarrow> Inr (Some c)))"

text \<open>\<^verbatim>\<open>ModelDownloader.__init__\<close>.\<close>

definition ModelDownloader ::
  "(string \<Rightarrow> string \<Rightarrow> string \<Rightarrow> string \<Rightarrow> exn + s3_client) \<Rightarrow> environ \<Rightarrow> string \<Rightarrow> string \<Rightarrow> string
     \<Rightarrow> exn + model_downloader" where
  "ModelDownloader boto3_client env bucket endpoint reg =
     (case create_s3_client boto3_client env endpoint reg of
        Inl e \<Rightarrow> Inl e
      | Inr client \<Rightarrow>
          Inr \<lparr>bucket_name = bucket, endpoint_url = endpoint, region = reg,
               s3 = client, model_path = ''/model''\<rparr>)"

text \<open>\<^verbatim>\<open>download_file\<close>: every exception of the body, the \<open>AttributeError\<close> of a missing
  client and the errors of the file system included, is caught and turned into
  \<^verbatim>\<open>False\<close>.\<close>

definition download_file :: "model_downloader \<Rightarrow> string \<Rightarrow> string \<Rightarrow> world \<Rightarrow> bool \<times> world" where
  "download_file self key local_path w =
     (case s3 self of
        None \<Rightarrow> (False, w)
      | Some c \<Rightarrow>
          (case head_object c (bucket_name self) key of
             Inl e \<Rightarrow> (False, w)
           | Inr file_size \<Rightarrow>
               (case os_makedirs (os_path_dirname local_path) w of
                  (Some e, w1) \<Rightarrow> (False, w1)
                | (None, w1) \<Rightarrow>
                    (case s3_download_file c (bucket_name self) key local_path w1 of
                       Inl e \<Rightarrow> (False, w1)
                     | Inr w2 \<Rightarrow> (True, w2)))))"

text \<open>The \<^verbatim>\<open>while True\<close> loop of \<^verbatim>\<open>list_bucket_contents\<close>, with the loop variables
  \<open>continuation_token\<close> and \<open>objects\<close> as arguments.\<close>

partial_function (option) list_pages ::
  "s3_client \<Rightarrow> string \<Rightarrow> string option \<Rightarrow> remote_object list \<Rightarrow> (exn + remote_object list) option" where
  "list_pages c bucket continuation_token objects =
     (case (if truthy continuation_token
            then list_objects_v2 c bucket continuation_token
            else list_objects_v2 c bucket None) of
        Inl e \<Rightarrow> Some (Inl e)
      | Inr response \<Rightarrow>
          (let objects' = (case Contents response of
                             Some cs \<Rightarrow> objects @ cs
                           | None \<Rightarrow> objects)
           in if IsTruncated response \<noteq> Some True then Some (Inr objects')
              else list_pages c bucket (NextContinuationToken response) objects'))"

text \<open>\<^verbatim>\<open>list_bucket_contents\<close>: the handler is \<^verbatim>\<open>except ClientError\<close>, so any other
  exception leaves the method.\<close>

definition list_bucket_contents :: "model_downloader \<Rightarrow> (exn + remote_object list) option" where
  "list_bucket_contents self =
     (case s3 self of
        None \<Rightarrow> Some (Inl (no_attribute ''list_objects_v2''))
      | Some c \<Rightarrow>
          (case list_pages c (bucket_name self) None [] of
             None \<Rightarrow> None
           | Some (Inl (ClientError m)) \<Rightarrow> Some (Inr [])
           | Some (Inl e) \<Rightarrow> Some (Inl e)
           | Some (Inr objects) \<Rightarrow> Some (Inr objects)))"

text \<open>The body of \<^verbatim>\<open>for obj in objects\<close> in \<^verbatim>\<open>download_model\<close>, on the loop state
  \<open>(success_count, failed_count, world)\<close>.\<close>

definition process_object ::
  "model_downloader \<Rightarrow> remote_object \<Rightarrow> nat \<times> nat \<times> world \<Rightarrow> exn + nat \<times> nat \<times> world" where
  "process_object self obj st =
     (case st of (success_count, failed_count, w) \<Rightarrow>
        (let key = Key obj;
             local_file_path = os_path_join (model_path self) key;
             attempt = (case download_file self key local_file_path w of
                          (True, w') \<Rightarrow> Inr (success_count + 1, failed_count, w')
                        | (False, w') \<Rightarrow> Inr (success_count, failed_count + 1, w'))
         in if os_path_exists w local_file_path
            then (case os_path_getsize w local_file_path of
                    Inl e \<Rightarrow> Inl e
                  | Inr local_size \<Rightarrow>
                      if local_size = Size obj
                      then Inr (success_count + 1, failed_count, w)
                      else attempt)
            else attempt))"

fun download_objects ::
  "model_downloader \<Rightarrow> remote_object list \<Rightarrow> nat \<times> nat \<times> world \<Rightarrow> exn + nat \<times> nat \<times> world" where
  "download_objects self [] st = Inr st"
| "download_objects self (obj # objects) st =
     (case process_object self obj st of
        Inl e \<Rightarrow> Inl e
      | Inr st' \<Rightarrow> download_objects self objects st')"

record metadata =
  download_time :: real
  meta_bucket_name :: string
  meta_endpoint_url :: string
  total_files :: nat
  successful_downloads :: nat
  failed_downloads :: nat

definition metadata_file :: "model_downloader \<Rightarrow> string" where
  "metadata_file self = os_path_join (model_path self) ''download_metadata.json''"

text \<open>\<^verbatim>\<open>download_model\<close>. The result is \<open>None\<close> when the listing never returns,
  \<open>Some (Inl e)\<close> when \<open>e\<close> is raised to the caller, and \<open>Some (Inr (b, w'))\<close> when the
  method returns \<open>b\<close> and leaves the world \<open>w'\<close>. \<^verbatim>\<open>os.makedirs\<close> at the start and the
  writing of the manifest at the end are outside any \<^verbatim>\<open>try\<close>.\<close>

definition download_model ::
  "(metadata \<Rightarrow> string) \<Rightarrow> model_downloader \<Rightarrow> world \<Rightarrow> (exn + bool \<times> world) option" where
  "download_model json_dump self w =
     (case os_makedirs (model_path self) w of
        (Some e, w1) \<Rightarrow> Some (Inl e)
      | (None, w1) \<Rightarrow>
          (case list_bucket_contents self of
             None \<Rightarrow> None
           | Some (Inl e) \<Rightarrow> Some (Inl e)
           | Some (Inr objects) \<Rightarrow>
               if objects = [] then Some (Inr (False, w1))
               else (case download_objects self objects (0, 0, w1) of
                       Inl e \<Rightarrow> Some (Inl e)
                     | Inr (success_count, failed_count, w2) \<Rightarrow>
                         (let metadata = \<lparr>download_time = time_time w2,
                                          meta_bucket_name = bucket_name self,
                                          meta_endpoint_url = endpoint_url self,
                                          total_files = length objects,
                                          successful_downloads = success_count,
                                          failed_downloads = failed_count\<rparr>
                          in case write_file (metadata_file self) (json_dump metadata) w2 of
                               Inl e \<Rightarrow> Some (Inl e)
                             | Inr w3 \<Rightarrow> Some (Inr (failed_count = 0, w3))))))"

definition download_model_from_s3 ::
  "(string \<Rightarrow> string \<Rightarrow> string \<Rightarrow> string \<Rightarrow> exn + s3_client) \<Rightarrow> (metadata \<Rightarrow> string) \<Rightarrow> environ
     \<Rightarrow> string \<Rightarrow> string \<Rightarrow> string \<Rightarrow> world \<Rightarrow> (exn + bool \<times> world) option" where
  "download_model_from_s3 boto3_client json_dump env bucket endpoint reg w =
     (case ModelDownloader boto3_client env bucket endpoint reg of
        Inl e \<Rightarrow> Some (Inl e)
      | Inr downloader \<Rightarrow> download_model json_dump downloader w)"

subsection \<open>The worker\<close>

definition CONFIG :: "environ \<Rightarrow> (string \<rightharpoonup> string)" where
  "CONFIG env =
     [''S3_BUCKET'' \<mapsto> os_getenv_default env ''S3_BUCKET'' ''rd0cg4jfje'',
      ''S3_ENDPOINT'' \<mapsto> os_getenv_default env ''S3_ENDPOINT'' ''https://s3api-eu-cz-1.runpod.io'',
      ''S3_REGION'' \<mapsto> os_getenv_default env ''S3_REGION'' ''eu-cz-1'',
      ''MODEL_PATH'' \<mapsto> ''/model'']"

text \<open>A dictionary subscript \<^verbatim>\<open>d[k]\<close>.\<close>

definition subscript :: "(string \<rightharpoonup> 'v) \<Rightarrow> string \<Rightarrow> exn + 'v" where
  "subscript d k = (case d k of None \<Rightarrow> Inl (KeyError k) | Some v \<Rightarrow> Inr v)"

text \<open>\<^verbatim>\<open>initialize_worker\<close>: the credentials are looked at for a warning only, the call
  of \<^verbatim>\<open>download_model_from_s3\<close> is commented out, and the readiness descriptor is built
  from \<^verbatim>\<open>CONFIG\<close>.\<close>

definition initialize_worker :: "environ \<Rightarrow> exn + (string \<rightharpoonup> string)" where
  "initialize_worker env =
     (case subscript (CONFIG env) ''MODEL_PATH'' of
        Inl e \<Rightarrow> Inl e
      | Inr path \<Rightarrow> Inr [''status'' \<mapsto> ''ready'', ''model_path'' \<mapsto> path])"

text \<open>A job input is a string or some other value; the f-string formats a string as
  itself and any other value by its own \<^verbatim>\<open>__format__\<close>, which may raise.\<close>

datatype 'a pyval = PyStr string | PyObj 'a

fun py_format :: "('a \<Rightarrow> exn + string) \<Rightarrow> 'a pyval \<Rightarrow> exn + string" where
  "py_format fmt (PyStr s) = Inr s"
| "py_format fmt (PyObj a) = fmt a"

text \<open>The \<^verbatim>\<open>try\<close> block of \<^verbatim>\<open>handler\<close>.\<close>

definition handler_try ::
  "environ \<Rightarrow> ('a \<Rightarrow> exn + string) \<Rightarrow> (string \<rightharpoonup> 'a pyval) \<Rightarrow> exn + (string \<rightharpoonup> string)" where
  "handler_try env fmt job =
     (case subscript job ''input'' of
        Inl e \<Rightarrow> Inl e
      | Inr input_data \<Rightarrow>
          (case subscript (CONFIG env) ''MODEL_PATH'' of
             Inl e \<Rightarrow> Inl e
           | Inr path \<Rightarrow>
               (case py_format fmt input_data of
                  Inl e \<Rightarrow> Inl e
                | Inr text \<Rightarrow>
                    Inr [''status'' \<mapsto> ''success'',
                         ''model_used'' \<mapsto> path,
                         ''result'' \<mapsto> ''Processed input: '' @ text])))"

text \<open>\<^verbatim>\<open>handler\<close>: \<^verbatim>\<open>except Exception\<close> turns whatever the block raised into an error
  response.\<close>

definition handler ::
  "environ \<Rightarrow> ('a \<Rightarrow> exn + string) \<Rightarrow> (string \<rightharpoonup> 'a pyval) \<Rightarrow> (string \<rightharpoonup> string)" where
  "handler env fmt job =
     (case handler_try env fmt job of
        Inr response \<Rightarrow> response
      | Inl e \<Rightarrow> [''status'' \<mapsto> ''error'', ''message'' \<mapsto> str_exn e])"

section \<open>Notions used in the statements\<close>

text \<open>What reading the file at a path gives: its content, when the path resolves to a
  regular file.\<close>

definition read_file :: "world \<Rightarrow> string \<Rightarrow> string option" where
  "read_file w p =
     (case resolve w p of
        Inl e \<Rightarrow> None
      | Inr loc \<Rightarrow> (case lookup w loc of Some (File body) \<Rightarrow> Some body | _ \<Rightarrow> None))"

text \<open>A well-formed tree: whatever holds an entry is a directory.\<close>

definition wf_world :: "world \<Rightarrow> bool" where
  "wf_world w = (\<forall>loc n. nodes w (loc @ [n]) \<noteq> None \<longrightarrow> lookup w loc = Some Dir)"

text \<open>The second world is the first with some directories made: no regular file is
  written, changed or removed.\<close>

definition dirs_added :: "world \<Rightarrow> world \<Rightarrow> bool" where
  "dirs_added w w' =
     (cwd w' = cwd w \<and> dir_size w' = dir_size w \<and> clock w' = clock w
      \<and> (\<forall>loc. nodes w' loc = nodes w loc \<or> (nodes w loc = None \<and> nodes w' loc = Some Dir)))"


text \<open>The objects of one page, and the pages that the provider serves from a token on: each
  page but the last is truncated and hands the next token on.\<close>

definition page_objects :: "list_response \<Rightarrow> remote_object list" where
  "page_objects r = (case Contents r of Some cs \<Rightarrow> cs | None \<Rightarrow> [])"

fun page_chain :: "s3_client \<Rightarrow> string \<Rightarrow> string option \<Rightarrow> list_response list \<Rightarrow> bool" where
  "page_chain c bucket tok [] = False"
| "page_chain c bucket tok [r] =
     (list_objects_v2 c bucket (if truthy tok then tok else None) = Inr r
      \<and> IsTruncated r \<noteq> Some True)"
| "page_chain c bucket tok (r # r' # rs) =
     (list_objects_v2 c bucket (if truthy tok then tok else None) = Inr r
      \<and> IsTruncated r = Some True
      \<and> page_chain c bucket (NextContinuationToken r) (r' # rs))"

text \<open>The provider serves the truncated pages \<open>rs\<close> from a token on, and the call after
  them raises \<open>e\<close>.\<close>

fun page_chain_raising ::
  "s3_client \<Rightarrow> string \<Rightarrow> string option \<Rightarrow> list_response list \<Rightarrow> exn \<Rightarrow> bool" where
  "page_chain_raising c bucket tok [] e =
     (list_objects_v2 c bucket (if truthy tok then tok else None) = Inl e)"
| "page_chain_raising c bucket tok (r # rs) e =
     (list_objects_v2 c bucket (if truthy tok then tok else None) = Inr r
      \<and> IsTruncated r = Some True
      \<and> page_chain_raising c bucket (NextContinuationToken r) rs e)"


section \<open>Example buckets\<close>

text \<open>A bucket of two objects listed on two pages; the transfer of \<^verbatim>\<open>a\<close> is refused.\<close>

definition example_objects :: "remote_object list" where
  "example_objects = [\<lparr>Key = ''a'', Size = 1\<rparr>, \<lparr>Key = ''b'', Size = 2\<rparr>]"

definition example_client :: s3_client where
  "example_client =
     \<lparr>head_object = (\<lambda>bucket key. Inr (if key = ''a'' then 1 else 2)),
      list_objects_v2 = (\<lambda>bucket token.
         if token = Some ''t1''
         then Inr \<lparr>Contents = Some [\<lparr>Key = ''b'', Size = 2\<rparr>], IsTruncated = Some False,
                   NextContinuationToken = None\<rparr>
         else Inr \<lparr>Contents = Some [\<lparr>Key = ''a'', Size = 1\<rparr>], IsTruncated = Some True,
                   NextContinuationToken = Some ''t1''\<rparr>),
      get_object = (\<lambda>bucket key.
         if key = ''b'' then Inr ''xy'' else Inl (ClientError ''AccessDenied''))\<rparr>"

text \<open>A bucket of the one object \<^verbatim>\<open>a\<close>, with the transfer as a parameter, and a bucket
  without objects whose transfers would all succeed.\<close>

definition one_object_client :: "(string \<Rightarrow> string \<Rightarrow> exn + string) \<Rightarrow> s3_client" where
  "one_object_client transfer =
     \<lparr>head_object = (\<lambda>bucket key. Inr 1),
      list_objects_v2 = (\<lambda>bucket token.
         Inr \<lparr>Contents = Some [\<lparr>Key = ''a'', Size = 1\<rparr>], IsTruncated = Some False,
              NextContinuationToken = None\<rparr>),
      get_object = transfer\<rparr>"

definition vacant_client :: s3_client where
  "vacant_client =
     \<lparr>head_object = (\<lambda>bucket key. Inr 1),
      list_objects_v2 = (\<lambda>bucket token.
         Inr \<lparr>Contents = None, IsTruncated = Some False, NextContinuationToken = None\<rparr>),
      get_object = (\<lambda>bucket key. Inr ''x'')\<rparr>"

text \<open>A provider that answers the first page and refuses the second, and an endpoint that
  cannot be reached: the connection error is not a \<open>ClientError\<close>.\<close>

definition interrupted_client :: s3_client where
  "interrupted_client =
     \<lparr>head_object = (\<lambda>bucket key. Inr 1),
      list_objects_v2 = (\<lambda>bucket token.
         if token = Some ''t1'' then Inl (ClientError ''SlowDown'')
         else Inr \<lparr>Contents = Some [\<lparr>Key = ''a'', Size = 1\<rparr>], IsTruncated = Some True,
                   NextContinuationToken = Some ''t1''\<rparr>),
      get_object = (\<lambda>bucket key. Inr ''x'')\<rparr>"

definition unreachable_client :: s3_client where
  "unreachable_client =
     \<lparr>head_object = (\<lambda>bucket key. Inl (OtherException ''EndpointConnectionError'')),
      list_objects_v2 = (\<lambda>bucket token. Inl (OtherException ''EndpointConnectionError'')),
      get_object = (\<lambda>bucket key. Inl (OtherException ''EndpointConnectionError''))\<rparr>"

definition downloader_of :: "s3_client option \<Rightarrow> model_downloader" where
  "downloader_of client =
     \<lparr>bucket_name = ''bucket'', endpoint_url = ''https://s3.example'', region = ''eu'',
      s3 = client, model_path = ''/model''\<rparr>"

text \<open>A serialisation that shows the three counts, one letter per file.\<close>

definition example_json :: "metadata \<Rightarrow> string" where
  "example_json m =
     replicate (total_files m) (CHR ''t'') @ replicate (successful_downloads m) (CHR ''s'')
       @ replicate (failed_downloads m) (CHR ''f'')"

text \<open>A client that lists the given objects on one page and delivers the same body for
  every key.\<close>

definition listing_client :: "remote_object list \<Rightarrow> s3_client" where
  "listing_client objs =
     \<lparr>head_object = (\<lambda>bucket key. Inr 1),
      list_objects_v2 = (\<lambda>bucket token.
         Inr \<lparr>Contents = Some objs, IsTruncated = Some False, NextContinuationToken = None\<rparr>),
      get_object = (\<lambda>bucket key. Inr ''x'')\<rparr>"

text \<open>A world with nothing but the root, and a world with the directory \<^verbatim>\<open>/model\<close>.\<close>

definition empty_world :: world where
  "empty_world =
     \<lparr>nodes = Map.empty, cwd = [], dir_size = (\<lambda>loc names. 4096), clock = 0\<rparr>"

definition model_world :: world where
  "model_world =
     \<lparr>nodes = [[''model''] \<mapsto> Dir], cwd = [], dir_size = (\<lambda>loc names. 4096), clock = 0\<rparr>"

section \<open>The file system\<close>

lemma walk_append:
  "walk w cur (xs @ ys) =
     (case walk w cur xs of Inl e \<Rightarrow> Inl e | Inr c \<Rightarrow> walk w c ys)"
  by (induction xs arbitrary: cur) (auto split: option.splits node.splits)

text \<open>A walk that succeeds passes through directories only, so it succeeds in every world
  with the same directories.\<close>

lemma walk_same_dirs:
  assumes "\<And>loc. (lookup w' loc = Some Dir) = (lookup w loc = Some Dir)"
    and "walk w cur cs = Inr r"
  shows "walk w' cur cs = Inr r"
  using assms(2)
proof (induction cs arbitrary: cur)
  case Nil
  then show ?case by simp
next
  case (Cons c cs)
  from Cons.prems have d: "lookup w cur = Some Dir"
    by (auto split: option.splits node.splits)
  then have d': "lookup w' cur = Some Dir" using assms(1) by simp
  from Cons.prems d have "walk w (walk_step cur c) cs = Inr r" by simp
  then have "walk w' (walk_step cur c) cs = Inr r" by (rule Cons.IH)
  then show ?case using d' by simp
qed

lemma lookup_update:
  "lookup (w\<lparr>nodes := (nodes w)(loc @ [n] \<mapsto> x)\<rparr>) l = (if l = loc @ [n] then Some x else lookup w l)"
  by (simp add: lookup_def)

lemma write_file_SomeD:
  assumes "write_file p text w = Inr w'"
  shows "\<exists>parent n. resolve_parent w p = Inr (parent, Some n) \<and> \<not> trailing_slash p
           \<and> lookup w (parent @ [n]) \<noteq> Some Dir
           \<and> w' = w\<lparr>nodes := (nodes w)(parent @ [n] \<mapsto> File text)\<rparr>"
  using assms
  by (auto simp: write_file_def split: sum.splits prod.splits option.splits node.splits if_splits)

lemma resolve_parent_SomeD:
  assumes "resolve_parent w p = Inr (parent, Some n)"
  shows "p \<noteq> [] \<and> names_of p \<noteq> [] \<and> n = last (names_of p) \<and> n \<noteq> ''.'' \<and> n \<noteq> ''..''
         \<and> walk w (start_of w p) (butlast (names_of p)) = Inr parent
         \<and> lookup w parent = Some Dir"
  using assms
  by (auto simp: resolve_parent_def split: sum.splits option.splits node.splits if_splits)

lemma resolve_created:
  assumes rp: "resolve_parent w p = Inr (parent, Some n)" and nts: "\<not> trailing_slash p"
    and nd: "lookup w (parent @ [n]) \<noteq> Some Dir"
  shows "resolve (w\<lparr>nodes := (nodes w)(parent @ [n] \<mapsto> File text)\<rparr>) p = Inr (parent @ [n])"
proof -
  let ?w' = "w\<lparr>nodes := (nodes w)(parent @ [n] \<mapsto> File text)\<rparr>"
  from resolve_parent_SomeD [OF rp]
  have ne: "p \<noteq> []" and nm: "names_of p \<noteq> []" and n: "n = last (names_of p)"
    and ndot: "n \<noteq> ''.''" "n \<noteq> ''..''"
    and wk: "walk w (start_of w p) (butlast (names_of p)) = Inr parent"
    and pd: "lookup w parent = Some Dir" by auto
  have same: "(lookup ?w' loc = Some Dir) = (lookup w loc = Some Dir)" for loc
    using nd by (auto simp: lookup_update)
  have wk': "walk ?w' (start_of w p) (butlast (names_of p)) = Inr parent"
    using same wk by (rule walk_same_dirs)
  have pd': "lookup ?w' parent = Some Dir" using same pd by simp
  have comps: "path_components p = butlast (names_of p) @ [n]"
    using nts nm n by (simp add: path_components_def)
  have st: "start_of ?w' p = start_of w p" by (simp add: start_of_def)
  show ?thesis
    using ne wk' pd' ndot
    by (simp add: resolve_def comps st walk_append walk_step_def)
qed

text \<open>What has been written is what is read.\<close>

lemma write_read:
  assumes "write_file p text w = Inr w'"
  shows "read_file w' p = Some text"
proof -
  obtain parent n where rp: "resolve_parent w p = Inr (parent, Some n)"
    and nts: "\<not> trailing_slash p" and nd: "lookup w (parent @ [n]) \<noteq> Some Dir"
    and w': "w' = w\<lparr>nodes := (nodes w)(parent @ [n] \<mapsto> File text)\<rparr>"
    using write_file_SomeD [OF assms] by blast
  have "resolve w' p = Inr (parent @ [n])" unfolding w' using rp nts nd by (rule resolve_created)
  then show ?thesis by (simp add: read_file_def w' lookup_update)
qed

lemma write_file_frame:
  assumes "write_file p text w = Inr w'"
  shows "cwd w' = cwd w \<and> dir_size w' = dir_size w \<and> clock w' = clock w"
  using write_file_SomeD [OF assms] by auto

lemma dirs_added_refl: "dirs_added w w"
  by (simp add: dirs_added_def)

lemma dirs_added_trans: "dirs_added a b \<Longrightarrow> dirs_added b c \<Longrightarrow> dirs_added a c"
  unfolding dirs_added_def by metis

lemma os_mkdir_dirs_added: "os_mkdir p w = Inr w' \<Longrightarrow> dirs_added w w'"
  by (auto simp: os_mkdir_def dirs_added_def lookup_def
        split: sum.splits prod.splits option.splits if_splits)

lemma mkdir_or_exists_dirs_added: "dirs_added w (snd (mkdir_or_exists name w))"
  by (auto simp: mkdir_or_exists_def dirs_added_refl os_mkdir_dirs_added split: sum.splits)

lemma after_head_dirs_added:
  "dirs_added w (snd r) \<Longrightarrow> dirs_added w (snd (after_head tail name r))"
  by (cases r)
     (auto simp: after_head_def split: option.splits
           intro: dirs_added_trans mkdir_or_exists_dirs_added)

lemma os_makedirs_rec:
  assumes "fst (head_tail name) \<noteq> []" and "snd (head_tail name) \<noteq> []"
    and "\<not> os_path_exists w (fst (head_tail name))"
  shows "os_makedirs name w =
           after_head (snd (head_tail name)) name (os_makedirs (fst (head_tail name)) w)"
  using assms by (subst os_makedirs.simps) simp

lemma os_makedirs_base:
  assumes "fst (head_tail name) = [] \<or> snd (head_tail name) = []
             \<or> os_path_exists w (fst (head_tail name))"
  shows "os_makedirs name w = mkdir_or_exists name w"
  using assms by (subst os_makedirs.simps) auto

text \<open>\<^verbatim>\<open>os.makedirs\<close> makes directories and nothing else, also when it raises.\<close>

lemma os_makedirs_dirs_added: "dirs_added w (snd (os_makedirs name w))"
proof (induction name w rule: os_makedirs.induct)
  case (1 name w)
  show ?case
  proof (cases "fst (head_tail name) \<noteq> [] \<and> snd (head_tail name) \<noteq> []
         \<and> \<not> os_path_exists w (fst (head_tail name))")
    case True
    then have "dirs_added w (snd (os_makedirs (fst (head_tail name)) w))" by (rule "1.IH")
    then show ?thesis
      using True by (simp add: os_makedirs_rec after_head_dirs_added)
  next
    case False
    then have "os_makedirs name w = mkdir_or_exists name w"
      by (intro os_makedirs_base) auto
    then show ?thesis by (simp add: mkdir_or_exists_dirs_added)
  qed
qed

section \<open>Evaluating the file system on given paths\<close>

lemmas fs_eval = os_makedirs.simps head_tail_def os_path_split_def os_path_dirname_def
  after_head_def mkdir_or_exists_def os_mkdir_def write_file_def resolve_parent_def resolve_def
  os_path_exists_def os_path_isdir_def os_path_getsize_def path_components_def names_of_def
  trailing_slash_def start_of_def walk_step_def lookup_def startswith_def endswith_def
  os_path_join_def read_file_def Let_def

lemma makedirs_model_empty: "os_makedirs ''/model'' empty_world = (None, model_world)"
  by (simp add: fs_eval empty_world_def model_world_def)

lemma makedirs_model_again: "os_makedirs ''/model'' model_world = (None, model_world)"
  by (simp add: fs_eval model_world_def)

section \<open>Listing the bucket\<close>

text \<open>One turn of the pagination loop: the last page ends it with everything accumulated
  in order, a truncated page passes its token on.\<close>

lemma list_pages_last:
  assumes "list_objects_v2 c bucket (if truthy tok then tok else None) = Inr r"
    and "IsTruncated r \<noteq> Some True"
  shows "list_pages c bucket tok acc =
           Some (Inr (case Contents r of Some cs \<Rightarrow> acc @ cs | None \<Rightarrow> acc))"
  using assms by (subst list_pages.simps) (simp split: if_splits)

lemma list_pages_more:
  assumes "list_objects_v2 c bucket (if truthy tok then tok else None) = Inr r"
    and "IsTruncated r = Some True"
  shows "list_pages c bucket tok acc =
           list_pages c bucket (NextContinuationToken r)
             (case Contents r of Some cs \<Rightarrow> acc @ cs | None \<Rightarrow> acc)"
  using assms by (subst list_pages.simps) (simp split: if_splits)

lemma list_pages_raise:
  assumes "list_objects_v2 c bucket (if truthy tok then tok else None) = Inl e"
  shows "list_pages c bucket tok acc = Some (Inl e)"
  using assms by (subst list_pages.simps) (simp split: if_splits)

lemma accumulate_page:
  "(case Contents r of Some cs \<Rightarrow> acc @ cs | None \<Rightarrow> acc) = acc @ page_objects r"
  by (simp add: page_objects_def split: option.splits)

text \<open>When the provider serves finitely many pages, the loop ends and returns the objects
  of all pages in the order of the pages.\<close>

lemma list_pages_chain:
  "page_chain c bucket tok rs \<Longrightarrow>
     list_pages c bucket tok acc = Some (Inr (acc @ concat (map page_objects rs)))"
proof (induction c bucket tok rs arbitrary: acc rule: page_chain.induct)
  case (1 c bucket tok)
  then show ?case by simp
next
  case (2 c bucket tok r)
  then show ?case
    using list_pages_last [of c bucket tok r acc]
    by (simp add: accumulate_page)
next
  case (3 c bucket tok r r' rs)
  have "list_pages c bucket tok acc =
          list_pages c bucket (NextContinuationToken r)
             (case Contents r of Some cs \<Rightarrow> acc @ cs | None \<Rightarrow> acc)"
    using "3.prems" by (intro list_pages_more) simp_all
  also have "\<dots> = Some (Inr ((case Contents r of Some cs \<Rightarrow> acc @ cs | None \<Rightarrow> acc)
                        @ concat (map page_objects (r' # rs))))"
    using "3.prems" by (intro "3.IH") simp
  finally show ?case by (simp add: accumulate_page)
qed

lemma list_bucket_contents_pages:
  assumes "s3 self = Some c" and "page_chain c (bucket_name self) None rs"
  shows "list_bucket_contents self = Some (Inr (concat (map page_objects rs)))"
  using assms list_pages_chain [of c "bucket_name self" None rs "[]"]
  by (simp add: list_bucket_contents_def)

text \<open>A call that raises ends the loop with its exception, whatever was accumulated.\<close>

lemma list_pages_chain_raising:
  "page_chain_raising c bucket tok rs e \<Longrightarrow> list_pages c bucket tok acc = Some (Inl e)"
proof (induction rs arbitrary: tok acc)
  case Nil
  then show ?case by (intro list_pages_raise) simp
next
  case (Cons r rs)
  have "list_pages c bucket tok acc =
          list_pages c bucket (NextContinuationToken r)
             (case Contents r of Some cs \<Rightarrow> acc @ cs | None \<Rightarrow> acc)"
    using Cons.prems by (intro list_pages_more) simp_all
  also have "\<dots> = Some (Inl e)"
    using Cons.prems by (intro Cons.IH) simp
  finally show ?case .
qed

lemma example_listing:
  "list_bucket_contents (downloader_of (Some example_client)) = Some (Inr example_objects)"
  by (simp add: list_bucket_contents_def downloader_of_def list_pages.simps
        example_client_def truthy_def example_objects_def)

lemma one_object_listing:
  "list_bucket_contents (downloader_of (Some (one_object_client transfer)))
     = Some (Inr [\<lparr>Key = ''a'', Size = 1\<rparr>])"
  by (simp add: list_bucket_contents_def downloader_of_def list_pages.simps
        one_object_client_def truthy_def)

lemma vacant_listing:
  "list_bucket_contents (downloader_of (Some vacant_client)) = Some (Inr [])"
  by (simp add: list_bucket_contents_def downloader_of_def list_pages.simps
        vacant_client_def truthy_def)

text \<open>
  Claim C6, as stated: on any listing error \<^verbatim>\<open>list_bucket_contents\<close> returns an empty
  sequence and raises nothing. The handler is \<^verbatim>\<open>except ClientError\<close>: when the endpoint
  cannot be reached, the client's exception is not a \<open>ClientError\<close> and it is raised to
  the caller.
\<close>

theorem listing_error_counterexample:
  "list_objects_v2 unreachable_client ''bucket'' None
     = Inl (OtherException ''EndpointConnectionError'')
   \<and> list_bucket_contents (downloader_of (Some unreachable_client))
       = Some (Inl (OtherException ''EndpointConnectionError''))"
  by (simp add: list_bucket_contents_def downloader_of_def list_pages.simps
        unreachable_client_def truthy_def)

text \<open>
  Claim C6, amended. With a client, \<^verbatim>\<open>list_bucket_contents\<close> pages through the listing
  with the continuation token until a page is not truncated, and returns the objects of
  all pages in order; when a call of the listing raises a \<open>ClientError\<close>, on the first
  page or a later one, it returns the empty sequence and raises nothing; any other
  exception of a call is raised to the caller.
\<close>

theorem listing_pages_and_errors:
  assumes "s3 self = Some c"
  shows "(page_chain c (bucket_name self) None rs \<longrightarrow>
            list_bucket_contents self = Some (Inr (concat (map page_objects rs))))
       \<and> (page_chain_raising c (bucket_name self) None rs (ClientError m) \<longrightarrow>
            list_bucket_contents self = Some (Inr []))
       \<and> (page_chain_raising c (bucket_name self) None rs e \<and> (\<forall>m. e \<noteq> ClientError m) \<longrightarrow>
            list_bucket_contents self = Some (Inl e))"
proof -
  have a: "list_bucket_contents self = Some (Inr (concat (map page_objects rs)))"
    if "page_chain c (bucket_name self) None rs"
    using list_bucket_contents_pages [OF assms that] .
  have b: "list_bucket_contents self = Some (Inr [])"
    if "page_chain_raising c (bucket_name self) None rs (ClientError m)"
    using assms list_pages_chain_raising [OF that, of "[]"]
    by (simp add: list_bucket_contents_def)
  have c: "list_bucket_contents self = Some (Inl e)"
    if "page_chain_raising c (bucket_name self) None rs e" and "\<forall>m. e \<noteq> ClientError m"
    using assms that(2) list_pages_chain_raising [OF that(1), of "[]"]
    by (cases e) (simp_all add: list_bucket_contents_def)
  show ?thesis using a b c by blast
qed

theorem listing_pages_and_errors_witness:
  "list_bucket_contents (downloader_of (Some example_client))
     = Some (Inr [\<lparr>Key = ''a'', Size = 1\<rparr>, \<lparr>Key = ''b'', Size = 2\<rparr>])
   \<and> list_bucket_contents (downloader_of (Some interrupted_client)) = Some (Inr [])
   \<and> list_bucket_contents (downloader_of (Some unreachable_client))
       = Some (Inl (OtherException ''EndpointConnectionError''))"
proof -
  let ?p1 = "\<lparr>Contents = Some [\<lparr>Key = ''a'', Size = 1\<rparr>], IsTruncated = Some True,
              NextContinuationToken = Some ''t1''\<rparr>"
  let ?p2 = "\<lparr>Contents = Some [\<lparr>Key = ''b'', Size = 2\<rparr>], IsTruncated = Some False,
              NextContinuationToken = None\<rparr>"
  have c1: "s3 (downloader_of (Some example_client)) = Some example_client"
    and c2: "s3 (downloader_of (Some interrupted_client)) = Some interrupted_client"
    and c3: "s3 (downloader_of (Some unreachable_client)) = Some unreachable_client"
    by (simp_all add: downloader_of_def)
  have h1: "page_chain example_client (bucket_name (downloader_of (Some example_client))) None
              [?p1, ?p2]"
    by (simp add: example_client_def truthy_def)
  have h2: "page_chain_raising interrupted_client
              (bucket_name (downloader_of (Some interrupted_client))) None [?p1]
              (ClientError ''SlowDown'')"
    by (simp add: interrupted_client_def truthy_def)
  have h3: "page_chain_raising unreachable_client
              (bucket_name (downloader_of (Some unreachable_client))) None []
              (OtherException ''EndpointConnectionError'')
            \<and> (\<forall>m. OtherException ''EndpointConnectionError'' \<noteq> ClientError m)"
    by (simp add: unreachable_client_def truthy_def)
  show ?thesis
    using h1 h2 h3
      listing_pages_and_errors [OF c1, where rs = "[?p1, ?p2]"]
      listing_pages_and_errors [OF c2, where rs = "[?p1]" and m = "''SlowDown''"]
      listing_pages_and_errors [OF c3, where rs = "[]"
        and e = "OtherException ''EndpointConnectionError''"]
    by (simp add: page_objects_def)
qed

section \<open>Missing credentials\<close>

lemma create_s3_client_missing:
  "\<not> truthy (os_getenv env ''AWS_ACCESS_KEY_ID'') \<or> \<not> truthy (os_getenv env ''AWS_SECRET_ACCESS_KEY'')
     \<Longrightarrow> create_s3_client boto3_client env endpoint reg = Inr None"
  by (auto simp: create_s3_client_def Let_def)

text \<open>
  Claim C1. Without the two credentials \<^verbatim>\<open>download_model_from_s3\<close> is to be skipped
  without an exception, reporting a failed or skipped outcome. The code builds the
  downloader with \<^verbatim>\<open>self.s3 = None\<close> and then calls \<^verbatim>\<open>self.s3.list_objects_v2\<close>: the
  \<open>AttributeError\<close> is not a \<open>ClientError\<close>, so it is raised to the caller, whatever
  the bucket, the library and the files are. The call always ends in an exception: when
  \<^verbatim>\<open>os.makedirs\<close> of the model directory succeeds it is that \<open>AttributeError\<close>, and
  otherwise the error of \<^verbatim>\<open>os.makedirs\<close>.
\<close>

theorem missing_credentials_raise:
  "\<not> truthy (os_getenv env ''AWS_ACCESS_KEY_ID'') \<or> \<not> truthy (os_getenv env ''AWS_SECRET_ACCESS_KEY'')
     \<Longrightarrow> (\<exists>e. download_model_from_s3 boto3_client json_dump env bucket endpoint reg w
                 = Some (Inl e))
         \<and> (fst (os_makedirs ''/model'' w) = None \<longrightarrow>
              download_model_from_s3 boto3_client json_dump env bucket endpoint reg w
                = Some (Inl (no_attribute ''list_objects_v2'')))"
  by (cases "os_makedirs ''/model'' w")
     (auto simp: download_model_from_s3_def ModelDownloader_def create_s3_client_missing
        download_model_def list_bucket_contents_def split: option.splits)

theorem missing_credentials_raise_witness:
  "\<not> truthy (os_getenv Map.empty ''AWS_ACCESS_KEY_ID'')
   \<and> \<not> truthy (os_getenv Map.empty ''AWS_SECRET_ACCESS_KEY'')
   \<and> fst (os_makedirs ''/model'' empty_world) = None
   \<and> download_model_from_s3 (\<lambda>endpoint reg access secret. Inr example_client) example_json
        Map.empty ''rd0cg4jfje'' ''https://s3api-eu-cz-1.runpod.io'' ''eu-cz-1'' empty_world
       = Some (Inl (no_attribute ''list_objects_v2''))"
proof -
  have h1: "\<not> truthy (os_getenv Map.empty ''AWS_ACCESS_KEY_ID'')"
    by (simp add: truthy_def os_getenv_def)
  have h2: "\<not> truthy (os_getenv Map.empty ''AWS_SECRET_ACCESS_KEY'')"
    by (simp add: truthy_def os_getenv_def)
  have h3: "fst (os_makedirs ''/model'' empty_world) = None"
    by (simp add: makedirs_model_empty)
  from h1 have "\<not> truthy (os_getenv Map.empty ''AWS_ACCESS_KEY_ID'')
           \<or> \<not> truthy (os_getenv Map.empty ''AWS_SECRET_ACCESS_KEY'')"
    by (rule disjI1)
  from missing_credentials_raise [OF this] h1 h2 h3 show ?thesis by simp
qed

section \<open>The download loop\<close>

lemma getsize_of_existing: "os_path_exists w p \<Longrightarrow> \<exists>n. os_path_getsize w p = Inr n"
  by (auto simp: os_path_exists_def os_path_getsize_def split: sum.splits option.splits node.splits)

lemma os_makedirs_clock: "os_makedirs name w = (r, w') \<Longrightarrow> clock w' = clock w"
  using os_makedirs_dirs_added [of w name] by (simp add: dirs_added_def)

lemma write_file_clock: "write_file p text w = Inr w' \<Longrightarrow> clock w' = clock w"
  using write_file_frame by blast

lemma download_file_clock:
  assumes "download_file self key p w = (b, w')"
  shows "clock w' = clock w"
proof (cases "os_makedirs (os_path_dirname p) w")
  case (Pair r w1)
  then have c1: "clock w1 = clock w" by (rule os_makedirs_clock)
  show ?thesis
    using assms Pair c1
    by (auto simp: download_file_def s3_download_file_def
          split: option.splits sum.splits dest: write_file_clock)
qed

text \<open>The body of the loop never raises and counts its object exactly once.\<close>

lemma process_object_total:
  "\<exists>s' f' w'. process_object self obj (s, f, w) = Inr (s', f', w') \<and> s' + f' = s + f + 1
      \<and> clock w' = clock w"
proof -
  let ?p = "os_path_join (model_path self) (Key obj)"
  obtain b w1 where dl: "download_file self (Key obj) ?p w = (b, w1)"
    by (cases "download_file self (Key obj) ?p w")
  have c: "clock w1 = clock w" using dl by (rule download_file_clock)
  show ?thesis
  proof (cases "os_path_exists w ?p")
    case True
    then obtain n where "os_path_getsize w ?p = Inr n" using getsize_of_existing by blast
    then show ?thesis using True dl c by (cases b) (simp_all add: process_object_def Let_def)
  next
    case False
    then show ?thesis using dl c by (cases b) (simp_all add: process_object_def Let_def)
  qed
qed

lemma download_objects_total:
  "\<exists>s' f' w'. download_objects self objects (s, f, w) = Inr (s', f', w')
      \<and> s' + f' = s + f + length objects \<and> clock w' = clock w"
proof (induction objects arbitrary: s f w)
  case Nil
  show ?case by simp
next
  case (Cons obj objects)
  obtain s1 f1 w1 where step: "process_object self obj (s, f, w) = Inr (s1, f1, w1)"
    and sum1: "s1 + f1 = s + f + 1" and c1: "clock w1 = clock w"
    using process_object_total by blast
  obtain s' f' w' where rest: "download_objects self objects (s1, f1, w1) = Inr (s', f', w')"
    and sum2: "s' + f' = s1 + f1 + length objects" and c2: "clock w' = clock w1"
    using Cons.IH by blast
  show ?case using step rest sum1 sum2 c1 c2 by simp
qed

lemma download_objects_append:
  "download_objects self (xs @ ys) st =
     (case download_objects self xs st of
        Inl e \<Rightarrow> Inl e
      | Inr st' \<Rightarrow> download_objects self ys st')"
  by (induction xs arbitrary: st) (auto split: sum.splits)



section \<open>A whole run\<close>

text \<open>After \<^verbatim>\<open>os.makedirs\<close> and a listing that is not empty, the run is the loop and then
  the writing of the manifest: its error is raised, its success is the return.\<close>

lemma download_model_run:
  assumes "os_makedirs (model_path self) w = (None, w1)"
    and "list_bucket_contents self = Some (Inr objects)" and "objects \<noteq> []"
    and "download_objects self objects (0, 0, w1) = Inr (s, f, w2)"
  shows "download_model json_dump self w =
          (case write_file (metadata_file self)
                  (json_dump \<lparr>download_time = clock w2,
                              meta_bucket_name = bucket_name self,
                              meta_endpoint_url = endpoint_url self,
                              total_files = length objects,
                              successful_downloads = s,
                              failed_downloads = f\<rparr>) w2 of
             Inl e \<Rightarrow> Some (Inl e)
           | Inr w3 \<Rightarrow> Some (Inr (f = 0, w3)))"
  using assms by (simp add: download_model_def time_time_def)

lemma example_listing_objects:
  "list_bucket_contents (downloader_of (Some (listing_client objs))) = Some (Inr objs)"
  by (simp add: list_bucket_contents_def downloader_of_def list_pages.simps
        listing_client_def truthy_def)

lemma example_loop:
  "download_objects (downloader_of (Some example_client)) example_objects (0, 0, model_world)
     = Inr (1, 1, model_world\<lparr>nodes := [[''model''] \<mapsto> Dir, [''model'', ''b''] \<mapsto> File ''xy'']\<rparr>)"
  by (simp add: example_objects_def process_object_def downloader_of_def example_client_def
        model_world_def fs_eval download_file_def s3_download_file_def)

lemma example_manifest_write:
  "write_file ''/model/download_metadata.json'' text
       (model_world\<lparr>nodes := [[''model''] \<mapsto> Dir, [''model'', ''b''] \<mapsto> File ''xy'']\<rparr>)
     = Inr (model_world\<lparr>nodes := [[''model''] \<mapsto> Dir, [''model'', ''b''] \<mapsto> File ''xy'',
                                   [''model'', ''download_metadata.json''] \<mapsto> File text]\<rparr>)"
  by (simp add: model_world_def fs_eval)

lemma example_metadata_file:
  "metadata_file (downloader_of client) = ''/model/download_metadata.json''"
  by (simp add: metadata_file_def downloader_of_def os_path_join_def startswith_def endswith_def)

text \<open>
  Claim C2, as stated: every run, runs where the listing is empty included, ends with a
  manifest written. On an empty listing \<^verbatim>\<open>download_model\<close> returns before the loop and
  before the manifest: the run from a world with nothing but the root leaves the directory
  \<^verbatim>\<open>/model\<close> and no manifest.
\<close>

theorem manifest_on_empty_listing_counterexample:
  "list_bucket_contents (downloader_of (Some vacant_client)) = Some (Inr [])
   \<and> download_model example_json (downloader_of (Some vacant_client)) empty_world
       = Some (Inr (False, model_world))
   \<and> read_file model_world (metadata_file (downloader_of (Some vacant_client))) = None"
proof -
  have "model_path (downloader_of (Some vacant_client)) = ''/model''"
    by (simp add: downloader_of_def)
  then have "download_model example_json (downloader_of (Some vacant_client)) empty_world
       = Some (Inr (False, model_world))"
    by (simp add: download_model_def vacant_listing makedirs_model_empty)
  moreover have "read_file model_world ''/model/download_metadata.json'' = None"
    by (simp add: model_world_def fs_eval)
  ultimately show ?thesis by (simp add: vacant_listing example_metadata_file)
qed

text \<open>
  Claim C2, amended. For every run of \<^verbatim>\<open>download_model\<close> in which \<^verbatim>\<open>os.makedirs\<close> of
  the model directory has succeeded and the listing returns at least one object, runs with
  failed transfers included, the loop ends with \<open>s\<close> successes and \<open>f\<close> failures,
  \<open>s + f\<close> the number of listed objects, and the manifest is then written with
  \<open>total_files\<close> that number and these two counts: whenever that writing succeeds, the
  run returns and the file \<^verbatim>\<open>download_metadata.json\<close> under the model path holds this
  manifest. When the listing returns no object, the run returns \<^verbatim>\<open>False\<close> and writes
  nothing: the world is the one that \<^verbatim>\<open>os.makedirs\<close> left.
\<close>

theorem manifest_written:
  assumes "os_makedirs (model_path self) w = (None, w1)"
    and "list_bucket_contents self = Some (Inr objects)"
  shows "(objects = [] \<longrightarrow> download_model json_dump self w = Some (Inr (False, w1)))
       \<and> (objects \<noteq> [] \<longrightarrow>
            (\<exists>s f w2.
               download_objects self objects (0, 0, w1) = Inr (s, f, w2)
             \<and> s + f = length objects
             \<and> (\<forall>w3. write_file (metadata_file self)
                         (json_dump \<lparr>download_time = clock w,
                                     meta_bucket_name = bucket_name self,
                                     meta_endpoint_url = endpoint_url self,
                                     total_files = length objects,
                                     successful_downloads = s,
                                     failed_downloads = f\<rparr>) w2 = Inr w3
                   \<longrightarrow> download_model json_dump self w = Some (Inr (f = 0, w3))
                     \<and> read_file w3 (metadata_file self) =
                         Some (json_dump \<lparr>download_time = clock w,
                                          meta_bucket_name = bucket_name self,
                                          meta_endpoint_url = endpoint_url self,
                                          total_files = length objects,
                                          successful_downloads = s,
                                          failed_downloads = f\<rparr>))))"
proof -
  have empty: "download_model json_dump self w = Some (Inr (False, w1))" if "objects = []"
    using assms that by (simp add: download_model_def)
  have full: "\<exists>s f w2.
               download_objects self objects (0, 0, w1) = Inr (s, f, w2)
             \<and> s + f = length objects
             \<and> (\<forall>w3. write_file (metadata_file self)
                         (json_dump \<lparr>download_time = clock w,
                                     meta_bucket_name = bucket_name self,
                                     meta_endpoint_url = endpoint_url self,
                                     total_files = length objects,
                                     successful_downloads = s,
                                     failed_downloads = f\<rparr>) w2 = Inr w3
                   \<longrightarrow> download_model json_dump self w = Some (Inr (f = 0, w3))
                     \<and> read_file w3 (metadata_file self) =
                         Some (json_dump \<lparr>download_time = clock w,
                                          meta_bucket_name = bucket_name self,
                                          meta_endpoint_url = endpoint_url self,
                                          total_files = length objects,
                                          successful_downloads = s,
                                          failed_downloads = f\<rparr>))"
    if ne: "objects \<noteq> []"
  proof -
    obtain s f w2 where loop: "download_objects self objects (0, 0, w1) = Inr (s, f, w2)"
      and tot: "s + f = 0 + 0 + length objects" and clk: "clock w2 = clock w1"
      using download_objects_total by blast
    have clk': "clock w2 = clock w" using clk os_makedirs_clock [OF assms(1)] by simp
    let ?text = "json_dump \<lparr>download_time = clock w,
                                     meta_bucket_name = bucket_name self,
                                     meta_endpoint_url = endpoint_url self,
                                     total_files = length objects,
                                     successful_downloads = s,
                                     failed_downloads = f\<rparr>"
    have run: "download_model json_dump self w =
          (case write_file (metadata_file self) ?text w2 of
             Inl e \<Rightarrow> Some (Inl e)
           | Inr w3 \<Rightarrow> Some (Inr (f = 0, w3)))"
      using download_model_run [OF assms ne loop, of json_dump] clk' by simp
    have "download_model json_dump self w = Some (Inr (f = 0, w3))
            \<and> read_file w3 (metadata_file self) = Some ?text"
      if wr: "write_file (metadata_file self) ?text w2 = Inr w3" for w3
      using run wr write_read [OF wr] by simp
    then show ?thesis using loop tot by auto
  qed
  show ?thesis using empty full by blast
qed

theorem manifest_written_witness:
  "os_makedirs (model_path (downloader_of (Some example_client))) empty_world = (None, model_world)
   \<and> list_bucket_contents (downloader_of (Some example_client)) = Some (Inr example_objects)
   \<and> example_objects \<noteq> []
   \<and> download_model example_json (downloader_of (Some example_client)) empty_world
       = Some (Inr (False,
           model_world\<lparr>nodes := [[''model''] \<mapsto> Dir, [''model'', ''b''] \<mapsto> File ''xy'',
                                  [''model'', ''download_metadata.json''] \<mapsto> File ''ttsf'']\<rparr>))
   \<and> read_file
        (model_world\<lparr>nodes := [[''model''] \<mapsto> Dir, [''model'', ''b''] \<mapsto> File ''xy'',
                                  [''model'', ''download_metadata.json''] \<mapsto> File ''ttsf'']\<rparr>)
        (metadata_file (downloader_of (Some example_client)))
       = Some (example_json \<lparr>download_time = 0, meta_bucket_name = ''bucket'',
                 meta_endpoint_url = ''https://s3.example'', total_files = 2,
                 successful_downloads = 1, failed_downloads = 1\<rparr>)"
proof -
  let ?d = "downloader_of (Some example_client)"
  let ?w2 = "model_world\<lparr>nodes := [[''model''] \<mapsto> Dir, [''model'', ''b''] \<mapsto> File ''xy'']\<rparr>"
  let ?w3 = "model_world\<lparr>nodes := [[''model''] \<mapsto> Dir, [''model'', ''b''] \<mapsto> File ''xy'',
                                  [''model'', ''download_metadata.json''] \<mapsto> File ''ttsf'']\<rparr>"
  have h1: "os_makedirs (model_path ?d) empty_world = (None, model_world)"
    by (simp add: downloader_of_def makedirs_model_empty)
  have h2: "list_bucket_contents ?d = Some (Inr example_objects)" by (rule example_listing)
  have h3: "example_objects \<noteq> []" by (simp add: example_objects_def)
  have len: "length example_objects = 2" by (simp add: example_objects_def)
  obtain s f w2 where loop: "download_objects ?d example_objects (0, 0, model_world) = Inr (s, f, w2)"
    and wr: "\<forall>w3. write_file (metadata_file ?d)
                (example_json \<lparr>download_time = clock empty_world,
                                     meta_bucket_name = bucket_name ?d,
                                     meta_endpoint_url = endpoint_url ?d,
                                     total_files = length example_objects,
                                     successful_downloads = s,
                                     failed_downloads = f\<rparr>) w2 = Inr w3
            \<longrightarrow> download_model example_json ?d empty_world = Some (Inr (f = 0, w3))
              \<and> read_file w3 (metadata_file ?d) =
                   Some (example_json \<lparr>download_time = clock empty_world,
                                     meta_bucket_name = bucket_name ?d,
                                     meta_endpoint_url = endpoint_url ?d,
                                     total_files = length example_objects,
                                     successful_downloads = s,
                                     failed_downloads = f\<rparr>)"
    using manifest_written [OF h1 h2, of example_json] h3 by blast
  from loop have vals: "s = 1" "f = 1" "w2 = ?w2" by (simp_all add: example_loop)
  have js: "example_json \<lparr>download_time = clock empty_world,
                                     meta_bucket_name = bucket_name ?d,
                                     meta_endpoint_url = endpoint_url ?d,
                                     total_files = length example_objects,
                                     successful_downloads = 1,
                                     failed_downloads = 1\<rparr> = ''ttsf''"
    by (simp add: example_json_def len eval_nat_numeral)
  have "write_file (metadata_file ?d) ''ttsf'' ?w2 = Inr ?w3"
    by (simp add: example_metadata_file example_manifest_write)
  then have "download_model example_json ?d empty_world = Some (Inr (False, ?w3))
      \<and> read_file ?w3 (metadata_file ?d) = Some ''ttsf''"
    using wr vals js by simp
  moreover have "example_json \<lparr>download_time = 0, meta_bucket_name = ''bucket'',
                 meta_endpoint_url = ''https://s3.example'', total_files = 2,
                 successful_downloads = 1, failed_downloads = 1\<rparr> = ''ttsf''"
    by (simp add: example_json_def eval_nat_numeral)
  ultimately show ?thesis using h1 h2 h3 by simp
qed

text \<open>
  Claim C3, as stated: with a listing that is not empty the run returns success exactly when
  the failure count is zero. The bucket lists the one object
  \<^verbatim>\<open>download_metadata.json/x\<close>, whose transfer succeeds: \<^verbatim>\<open>download_file\<close> makes the
  directory \<^verbatim>\<open>/model/download_metadata.json\<close> for it, the loop ends with one success and
  no failure, and the opening of the manifest at that path raises out of
  \<^verbatim>\<open>download_model\<close>: nothing is returned.
\<close>

theorem success_iff_no_failure_counterexample:
  "list_bucket_contents
       (downloader_of (Some (listing_client [\<lparr>Key = ''download_metadata.json/x'', Size = 1\<rparr>])))
     = Some (Inr [\<lparr>Key = ''download_metadata.json/x'', Size = 1\<rparr>])
   \<and> download_objects
       (downloader_of (Some (listing_client [\<lparr>Key = ''download_metadata.json/x'', Size = 1\<rparr>])))
       [\<lparr>Key = ''download_metadata.json/x'', Size = 1\<rparr>] (0, 0, model_world)
     = Inr (1, 0, model_world\<lparr>nodes :=
              [[''model''] \<mapsto> Dir, [''model'', ''download_metadata.json''] \<mapsto> Dir,
               [''model'', ''download_metadata.json'', ''x''] \<mapsto> File ''x'']\<rparr>)
   \<and> download_model example_json
       (downloader_of (Some (listing_client [\<lparr>Key = ''download_metadata.json/x'', Size = 1\<rparr>])))
       empty_world
     = Some (Inl (OSError IsADirectory))"
proof -
  let ?obj = "\<lparr>Key = ''download_metadata.json/x'', Size = 1\<rparr>"
  let ?d = "downloader_of (Some (listing_client [?obj]))"
  let ?w2 = "model_world\<lparr>nodes :=
              [[''model''] \<mapsto> Dir, [''model'', ''download_metadata.json''] \<mapsto> Dir,
               [''model'', ''download_metadata.json'', ''x''] \<mapsto> File ''x'']\<rparr>"
  have l: "list_bucket_contents ?d = Some (Inr [?obj])" by (rule example_listing_objects)
  have mk: "os_makedirs (model_path ?d) empty_world = (None, model_world)"
    by (simp add: downloader_of_def makedirs_model_empty)
  have loop: "download_objects ?d [?obj] (0, 0, model_world) = Inr (1, 0, ?w2)"
    by (simp add: process_object_def downloader_of_def listing_client_def
          model_world_def fs_eval download_file_def s3_download_file_def)
  have wr: "write_file (metadata_file ?d) body ?w2 = Inl (OSError IsADirectory)" for body
    by (simp add: example_metadata_file model_world_def fs_eval)
  have ne: "[?obj] \<noteq> []" by simp
  have run: "download_model example_json ?d empty_world = Some (Inl (OSError IsADirectory))"
    unfolding download_model_run [OF mk l ne loop, of example_json] wr by simp
  show ?thesis using l loop run by (intro conjI)
qed

text \<open>
  Claim C3, amended. For every run of \<^verbatim>\<open>download_model\<close> in which \<^verbatim>\<open>os.makedirs\<close> of
  the model directory has succeeded and the listing returns at least one object, the loop
  ends without an exception with every object counted once (\<open>s + f\<close> is the number of
  objects); each object, wherever it stands in the listing and whatever happened to the
  objects before it, has its turn of the loop and the objects after it have theirs; and
  whenever the writing of the manifest then succeeds, the run returns \<^verbatim>\<open>True\<close> exactly
  when the failure count \<open>f\<close> is zero.
\<close>

theorem success_iff_no_failure:
  assumes "os_makedirs (model_path self) w = (None, w1)"
    and "list_bucket_contents self = Some (Inr objects)" and "objects \<noteq> []"
  shows "\<exists>s f w2.
           download_objects self objects (0, 0, w1) = Inr (s, f, w2)
         \<and> s + f = length objects
         \<and> (\<forall>pre obj post. objects = pre @ obj # post \<longrightarrow>
              (\<exists>st st'. download_objects self pre (0, 0, w1) = Inr st
                 \<and> process_object self obj st = Inr st'
                 \<and> download_objects self post st' = Inr (s, f, w2)))
         \<and> (\<forall>w3. write_file (metadata_file self)
                     (json_dump \<lparr>download_time = clock w,
                                 meta_bucket_name = bucket_name self,
                                 meta_endpoint_url = endpoint_url self,
                                 total_files = length objects,
                                 successful_downloads = s,
                                 failed_downloads = f\<rparr>) w2 = Inr w3
               \<longrightarrow> download_model json_dump self w = Some (Inr (f = 0, w3)))"
proof -
  obtain s f w2 where loop: "download_objects self objects (0, 0, w1) = Inr (s, f, w2)"
    and tot: "s + f = 0 + 0 + length objects" and clk: "clock w2 = clock w1"
    using download_objects_total by blast
  have clk': "clock w2 = clock w" using clk os_makedirs_clock [OF assms(1)] by simp
  have run: "download_model json_dump self w =
          (case write_file (metadata_file self)
                  (json_dump \<lparr>download_time = clock w,
                              meta_bucket_name = bucket_name self,
                              meta_endpoint_url = endpoint_url self,
                              total_files = length objects,
                              successful_downloads = s,
                              failed_downloads = f\<rparr>) w2 of
             Inl e \<Rightarrow> Some (Inl e)
           | Inr w3 \<Rightarrow> Some (Inr (f = 0, w3)))"
    using download_model_run [OF assms loop, of json_dump] clk' by simp
  have each: "\<exists>st st'. download_objects self pre (0, 0, w1) = Inr st
                 \<and> process_object self obj st = Inr st'
                 \<and> download_objects self post st' = Inr (s, f, w2)"
    if split: "objects = pre @ obj # post" for pre obj post
  proof -
    obtain s1 f1 wa where before: "download_objects self pre (0, 0, w1) = Inr (s1, f1, wa)"
      using download_objects_total by blast
    obtain s2 f2 wb where turn: "process_object self obj (s1, f1, wa) = Inr (s2, f2, wb)"
      using process_object_total by blast
    have "download_objects self (pre @ obj # post) (0, 0, w1)
            = download_objects self post (s2, f2, wb)"
      using before turn by (simp add: download_objects_append)
    then have "download_objects self post (s2, f2, wb) = Inr (s, f, w2)"
      using loop split by simp
    then show ?thesis using before turn by blast
  qed
  have ret: "download_model json_dump self w = Some (Inr (f = 0, w3))"
    if "write_file (metadata_file self)
                     (json_dump \<lparr>download_time = clock w,
                                 meta_bucket_name = bucket_name self,
                                 meta_endpoint_url = endpoint_url self,
                                 total_files = length objects,
                                 successful_downloads = s,
                                 failed_downloads = f\<rparr>) w2 = Inr w3" for w3
    using run that by simp
  show ?thesis using loop tot each ret by auto
qed

theorem success_iff_no_failure_witness:
  "os_makedirs (model_path (downloader_of (Some example_client))) empty_world = (None, model_world)
   \<and> list_bucket_contents (downloader_of (Some example_client)) = Some (Inr example_objects)
   \<and> example_objects \<noteq> []
   \<and> download_objects (downloader_of (Some example_client)) example_objects (0, 0, model_world)
       = Inr (1, 1,
           model_world\<lparr>nodes := [[''model''] \<mapsto> Dir, [''model'', ''b''] \<mapsto> File ''xy'']\<rparr>)
   \<and> download_model example_json (downloader_of (Some example_client)) empty_world
       = Some (Inr (False,
           model_world\<lparr>nodes := [[''model''] \<mapsto> Dir, [''model'', ''b''] \<mapsto> File ''xy'',
                                  [''model'', ''download_metadata.json''] \<mapsto> File ''ttsf'']\<rparr>))"
proof -
  let ?d = "downloader_of (Some example_client)"
  let ?w2 = "model_world\<lparr>nodes := [[''model''] \<mapsto> Dir, [''model'', ''b''] \<mapsto> File ''xy'']\<rparr>"
  let ?w3 = "model_world\<lparr>nodes := [[''model''] \<mapsto> Dir, [''model'', ''b''] \<mapsto> File ''xy'',
                                  [''model'', ''download_metadata.json''] \<mapsto> File ''ttsf'']\<rparr>"
  have h1: "os_makedirs (model_path ?d) empty_world = (None, model_world)"
    by (simp add: downloader_of_def makedirs_model_empty)
  have h2: "list_bucket_contents ?d = Some (Inr example_objects)" by (rule example_listing)
  have h3: "example_objects \<noteq> []" by (simp add: example_objects_def)
  have len: "length example_objects = 2" by (simp add: example_objects_def)
  obtain s f w2 where loop: "download_objects ?d example_objects (0, 0, model_world) = Inr (s, f, w2)"
    and wr: "\<forall>w3. write_file (metadata_file ?d)
                (example_json \<lparr>download_time = clock empty_world,
                                     meta_bucket_name = bucket_name ?d,
                                     meta_endpoint_url = endpoint_url ?d,
                                     total_files = length example_objects,
                                     successful_downloads = s,
                                     failed_downloads = f\<rparr>) w2 = Inr w3
            \<longrightarrow> download_model example_json ?d empty_world = Some (Inr (f = 0, w3))"
    using success_iff_no_failure [OF h1 h2 h3, of example_json] by blast
  from loop have vals: "s = 1" "f = 1" "w2 = ?w2" by (simp_all add: example_loop)
  have js: "example_json \<lparr>download_time = clock empty_world,
                                     meta_bucket_name = bucket_name ?d,
                                     meta_endpoint_url = endpoint_url ?d,
                                     total_files = length example_objects,
                                     successful_downloads = 1,
                                     failed_downloads = 1\<rparr> = ''ttsf''"
    by (simp add: example_json_def len eval_nat_numeral)
  have "write_file (metadata_file ?d) ''ttsf'' ?w2 = Inr ?w3"
    by (simp add: example_metadata_file example_manifest_write)
  then have "download_model example_json ?d empty_world = Some (Inr (False, ?w3))"
    using wr vals js by simp
  then show ?thesis using h1 h2 h3 by (simp add: example_loop)
qed

text \<open>
  Claim C4. When the listing returns no object, \<^verbatim>\<open>download_model\<close> returns \<^verbatim>\<open>False\<close>
  and attempts no download: whatever the client's calls for an object would answer, the
  world is the one that \<^verbatim>\<open>os.makedirs\<close> of the model directory left, in which no file
  has been written or changed.
\<close>

theorem empty_listing_fails:
  assumes "list_bucket_contents self = Some (Inr [])"
    and "os_makedirs (model_path self) w = (None, w1)"
  shows "download_model json_dump self w = Some (Inr (False, w1)) \<and> dirs_added w w1"
  using assms os_makedirs_dirs_added [of w "model_path self"]
  by (simp add: download_model_def)

theorem empty_listing_fails_witness:
  "list_bucket_contents (downloader_of (Some vacant_client)) = Some (Inr [])
   \<and> os_makedirs (model_path (downloader_of (Some vacant_client)))
        (model_world\<lparr>nodes := [[''model''] \<mapsto> Dir, [''model'', ''a''] \<mapsto> File ''old''],
                      clock := 7\<rparr>)
       = (None, model_world\<lparr>nodes := [[''model''] \<mapsto> Dir, [''model'', ''a''] \<mapsto> File ''old''],
                      clock := 7\<rparr>)
   \<and> download_model example_json (downloader_of (Some vacant_client))
         (model_world\<lparr>nodes := [[''model''] \<mapsto> Dir, [''model'', ''a''] \<mapsto> File ''old''],
                      clock := 7\<rparr>)
       = Some (Inr (False,
           model_world\<lparr>nodes := [[''model''] \<mapsto> Dir, [''model'', ''a''] \<mapsto> File ''old''],
                      clock := 7\<rparr>))"
proof -
  let ?w = "model_world\<lparr>nodes := [[''model''] \<mapsto> Dir, [''model'', ''a''] \<mapsto> File ''old''],
                      clock := 7\<rparr>"
  have mk: "os_makedirs (model_path (downloader_of (Some vacant_client))) ?w = (None, ?w)"
    by (simp add: downloader_of_def model_world_def fs_eval)
  show ?thesis
    using vacant_listing mk empty_listing_fails [OF vacant_listing mk, of example_json] by simp
qed

section \<open>Destinations\<close>






section \<open>The job handler\<close>

lemma config_model_path: "CONFIG env ''MODEL_PATH'' = Some ''/model''"
  by (simp add: CONFIG_def)

text \<open>
  Claim C7. A job whose \<^verbatim>\<open>"input"\<close> is the string \<open>x\<close> gets exactly the response with
  status \<^verbatim>\<open>success\<close>, the configured model path (\<^verbatim>\<open>CONFIG['MODEL_PATH']\<close>, which is
  \<^verbatim>\<open>/model\<close>) and the result \<^verbatim>\<open>Processed input: \<close> followed by \<open>x\<close>; for any input
  value \<open>v\<close> whose formatting yields \<open>text\<close> the response is the same with \<open>text\<close> after
  the prefix.
\<close>

theorem handler_success:
  "(job ''input'' = Some (PyStr x) \<longrightarrow>
      handler env fmt job =
        [''status'' \<mapsto> ''success'',
         ''model_used'' \<mapsto> ''/model'',
         ''result'' \<mapsto> ''Processed input: '' @ x])
   \<and> (job ''input'' = Some v \<and> py_format fmt v = Inr text \<longrightarrow>
      handler env fmt job =
        [''status'' \<mapsto> ''success'',
         ''model_used'' \<mapsto> ''/model'',
         ''result'' \<mapsto> ''Processed input: '' @ text])
   \<and> CONFIG env ''MODEL_PATH'' = Some ''/model''"
  by (simp add: handler_def handler_try_def subscript_def config_model_path)

theorem handler_success_witness:
  "handler Map.empty (\<lambda>u::unit. Inl (OtherException ''unused'')) [''input'' \<mapsto> PyStr ''x''] =
     [''status'' \<mapsto> ''success'',
      ''model_used'' \<mapsto> ''/model'',
      ''result'' \<mapsto> ''Processed input: x'']"
  using handler_success
    [of "[''input'' \<mapsto> PyStr ''x'']" "''x''" Map.empty
        "\<lambda>u::unit. Inl (OtherException ''unused'')" "PyStr ''x''" "''x''"]
  by simp

text \<open>
  Claim C8. A job without the key \<^verbatim>\<open>"input"\<close> gets the response with status
  \<^verbatim>\<open>error\<close> and the message of the \<open>KeyError\<close>, the key between single quotes,
  which is not empty. \<open>handler\<close> returns a response for every job: its result type
  has no exception.
\<close>

theorem handler_missing_input:
  "job ''input'' = None \<Longrightarrow>
     handler env fmt job =
       [''status'' \<mapsto> ''error'', ''message'' \<mapsto> CHR 0x27 # ''input'' @ [CHR 0x27]]
     \<and> CHR 0x27 # ''input'' @ [CHR 0x27] \<noteq> []"
  by (simp add: handler_def handler_try_def subscript_def)

theorem handler_missing_input_witness:
  "handler Map.empty (\<lambda>u::unit. Inl (OtherException ''unused''))
       ([''other'' \<mapsto> PyStr ''x''] :: string \<rightharpoonup> unit pyval)
     = [''status'' \<mapsto> ''error'', ''message'' \<mapsto> CHR 0x27 # ''input'' @ [CHR 0x27]]"
  using handler_missing_input
    [of "[''other'' \<mapsto> PyStr ''x''] :: string \<rightharpoonup> unit pyval" Map.empty
        "\<lambda>u::unit. Inl (OtherException ''unused'')"]
  by simp

end
